theory Spec2Isabelle
  imports Main "HOL-Library.AList" "HOL-Library.Sublist"
begin

section \<open>Values of the configuration document\<close>

text \<open>
  The values that \<^verbatim>\<open>json.load\<close> produces and \<^verbatim>\<open>json.dump\<close> accepts: \<^verbatim>\<open>None\<close>,
  booleans, Python's unbounded integers, strings, lists, and dictionaries with string
  keys. A dictionary keeps its insertion order, so it is an association list; the
  operations below never create a second entry for a key. JSON numbers with a fraction
  or an exponent (Python floats) are outside this model: \<^verbatim>\<open>Config\<close> holds integers.
\<close>

datatype json =
    JNull
  | JBool bool
  | JInt int
  | JStr string
  | JArr "json list"
  | JObj "(string \<times> json) list"

text \<open>The exceptions that the operations of \<^verbatim>\<open>config.py\<close> can meet.\<close>

datatype error =
    OSError
  | JSONDecodeError
  | UnicodeDecodeError
  | TypeError
  | AttributeError
  | KeyError
  | ValueError
  | RecursionError

section \<open>The file system, as far as \<^verbatim>\<open>config.py\<close> observes it\<close>

text \<open>
  The module touches one directory (\<^verbatim>\<open>CONFIG_DIR\<close>) and one file in it
  (\<^verbatim>\<open>CONFIG_FILE\<close>). The bytes of the file are represented by what reading them as
  UTF-8 text and parsing that text with \<^verbatim>\<open>json.load\<close> does:
  \<^item> \<open>Json j\<close>: it returns \<open>j\<close>;
  \<^item> \<open>Malformed\<close>: the text violates the JSON grammar and it raises
    \<^verbatim>\<open>json.JSONDecodeError\<close>;
  \<^item> \<open>Undecodable\<close>: the bytes are not UTF-8 and the read raises \<^verbatim>\<open>UnicodeDecodeError\<close>;
  \<^item> \<open>TooDeep\<close>: the text is nested beyond what the interpreter's recursion limit
    allows (a hundred thousand opening brackets, say) and it raises \<^verbatim>\<open>RecursionError\<close>;
  \<^item> \<open>HugeInteger\<close>: the text has an integer literal of more than 4300 digits and the
    conversion to \<^verbatim>\<open>int\<close> raises \<^verbatim>\<open>ValueError\<close>.

  The \<^verbatim>\<open>json\<close> library is not part of the repository; what is assumed of it is that a
  text which \<^verbatim>\<open>json.dump(v, f, indent=2)\<close> has written in full parses back to \<open>v\<close>,
  which holds for the values of type \<open>json\<close> above.
\<close>

datatype content = Json json | Malformed | Undecodable | TooDeep | HugeInteger

text \<open>
  What the operating system does when the file is opened for writing and a document is
  dumped into it: it works, or \<^verbatim>\<open>open\<close> raises \<^verbatim>\<open>OSError\<close> and the file is untouched,
  or the file is truncated by \<^verbatim>\<open>open\<close> and a later write (or the close) raises
  \<^verbatim>\<open>OSError\<close>, which leaves a proper prefix of the text of the document (for a
  dictionary, never a text that parses).
\<close>

datatype write_behaviour = Writes | OpenRaises | DumpRaises

text \<open>
  \<open>dir_present\<close>: \<^verbatim>\<open>os.path.exists(CONFIG_DIR)\<close>; \<open>can_mkdir\<close>: whether
  \<^verbatim>\<open>os.makedirs(CONFIG_DIR)\<close> succeeds; \<open>config_file\<close>: the content of \<^verbatim>\<open>CONFIG_FILE\<close>,
  \<open>None\<close> when \<^verbatim>\<open>os.path.exists(CONFIG_FILE)\<close> is false; \<open>can_read\<close>: whether opening
  and reading the file succeeds (otherwise \<^verbatim>\<open>OSError\<close>); \<open>writing\<close>: see above;
  \<open>encoder_depth\<close>: how many levels of nested lists and dictionaries \<^verbatim>\<open>json.dump\<close>
  encodes before the interpreter's recursion limit stops it (that depends on the limit
  and on how deep the caller already is);
  \<open>write_calls\<close>: a counter of the calls made so far to the two primitives that
  modify the file system (\<^verbatim>\<open>os.makedirs\<close> and \<^verbatim>\<open>open(..., "w")\<close>), successful or
  not. The counter is not observed by the program; it makes "no save was attempted"
  a property of the final state.
\<close>

record fs =
  dir_present :: bool
  can_mkdir :: bool
  config_file :: "content option"
  can_read :: bool
  writing :: write_behaviour
  encoder_depth :: nat
  write_calls :: nat

type_synonym 'a io = "fs \<Rightarrow> (error + 'a) \<times> fs"

subsection \<open>Primitives\<close>

definition path_exists_dir :: "fs \<Rightarrow> bool \<times> fs" where
  "path_exists_dir s = (dir_present s, s)"

definition path_exists_file :: "fs \<Rightarrow> bool \<times> fs" where
  "path_exists_file s = (config_file s \<noteq> None, s)"

definition makedirs :: "unit io" where
  "makedirs s =
     (let s' = s\<lparr>write_calls := Suc (write_calls s)\<rparr>
      in if dir_present s \<or> \<not> can_mkdir s then (Inl OSError, s')
         else (Inr (), s'\<lparr>dir_present := True\<rparr>))"

text \<open>\<^verbatim>\<open>with open(CONFIG_FILE, encoding="utf-8") as f: config = json.load(f)\<close>\<close>

definition read_json :: "json io" where
  "read_json s =
     (case config_file s of
        None \<Rightarrow> (Inl OSError, s)
      | Some c \<Rightarrow>
          if \<not> can_read s then (Inl OSError, s)
          else (case c of
                  Undecodable \<Rightarrow> (Inl UnicodeDecodeError, s)
                | Malformed \<Rightarrow> (Inl JSONDecodeError, s)
                | TooDeep \<Rightarrow> (Inl RecursionError, s)
                | HugeInteger \<Rightarrow> (Inl ValueError, s)
                | Json j \<Rightarrow> (Inr j, s)))"

text \<open>
  What \<^verbatim>\<open>json.dump\<close> refuses to encode. It writes the text piece by piece, in the
  order of the document, and raises at the first value it cannot encode: \<^verbatim>\<open>ValueError\<close>
  at an integer of more than 4300 digits (the limit of the conversion of an \<^verbatim>\<open>int\<close> to
  a string), \<^verbatim>\<open>RecursionError\<close> at a list or dictionary nested deeper than the
  interpreter allows.
\<close>

definition max_str_digits :: nat where
  "max_str_digits = 4300"

definition int_fits :: "int \<Rightarrow> bool" where
  "int_fits n = (\<bar>n\<bar> < 10 ^ max_str_digits)"

fun first_error :: "error option list \<Rightarrow> error option" where
  "first_error [] = None"
| "first_error (None # rest) = first_error rest"
| "first_error (Some e # rest) = Some e"

fun dump_error :: "nat \<Rightarrow> json \<Rightarrow> error option" where
  "dump_error d JNull = None"
| "dump_error d (JBool b) = None"
| "dump_error d (JInt n) = (if int_fits n then None else Some ValueError)"
| "dump_error d (JStr s) = None"
| "dump_error d (JArr xs) =
     (if d = 0 then Some RecursionError
      else first_error (map (dump_error (d - 1)) xs))"
| "dump_error d (JObj kvs) =
     (if d = 0 then Some RecursionError
      else first_error (map (\<lambda>kv. dump_error (d - 1) (snd kv)) kvs))"

text \<open>
  \<^verbatim>\<open>with open(CONFIG_FILE, "w", encoding="utf-8") as f: json.dump(config, f, indent=2)\<close>.
  When \<^verbatim>\<open>json.dump\<close> raises, \<^verbatim>\<open>open\<close> has truncated the file already and the text
  written so far stops before the end of the document.
\<close>

definition write_json :: "json \<Rightarrow> unit io" where
  "write_json config s =
     (let s' = s\<lparr>write_calls := Suc (write_calls s)\<rparr>
      in if \<not> dir_present s then (Inl OSError, s')
         else (case writing s of
                 OpenRaises \<Rightarrow> (Inl OSError, s')
               | DumpRaises \<Rightarrow> (Inl OSError, s'\<lparr>config_file := Some Malformed\<rparr>)
               | Writes \<Rightarrow>
                   (case dump_error (encoder_depth s) config of
                      Some e \<Rightarrow> (Inl e, s'\<lparr>config_file := Some Malformed\<rparr>)
                    | None \<Rightarrow> (Inr (), s'\<lparr>config_file := Some (Json config)\<rparr>))))"

section \<open>The Python operations used on the loaded value\<close>

text \<open>
  \<^verbatim>\<open>key in x\<close> for a string \<open>key\<close>: a dictionary is asked for the key, a list for an
  element equal to the string (only a string is equal to a string), a string for a
  substring; \<^verbatim>\<open>None\<close>, booleans and integers raise \<^verbatim>\<open>TypeError\<close>.
\<close>

fun py_contains :: "string \<Rightarrow> json \<Rightarrow> error + bool" where
  "py_contains key (JObj kvs) = Inr (key \<in> set (map fst kvs))"
| "py_contains key (JArr xs) = Inr (JStr key \<in> set xs)"
| "py_contains key (JStr s) = Inr (sublist key s)"
| "py_contains key JNull = Inl TypeError"
| "py_contains key (JBool b) = Inl TypeError"
| "py_contains key (JInt n) = Inl TypeError"

text \<open>\<^verbatim>\<open>x[key]\<close> for a string \<open>key\<close>.\<close>

fun py_getitem :: "json \<Rightarrow> string \<Rightarrow> error + json" where
  "py_getitem (JObj kvs) key =
     (case map_of kvs key of None \<Rightarrow> Inl KeyError | Some v \<Rightarrow> Inr v)"
| "py_getitem (JArr xs) key = Inl TypeError"
| "py_getitem (JStr s) key = Inl TypeError"
| "py_getitem JNull key = Inl TypeError"
| "py_getitem (JBool b) key = Inl TypeError"
| "py_getitem (JInt n) key = Inl TypeError"

text \<open>
  \<^verbatim>\<open>x[key] = value\<close> for a string \<open>key\<close>, returning the mutated \<open>x\<close>: a dictionary
  replaces the value of a key it has, at its place, and appends a new key.
\<close>

fun py_setitem :: "json \<Rightarrow> string \<Rightarrow> json \<Rightarrow> error + json" where
  "py_setitem (JObj kvs) key v = Inr (JObj (AList.update key v kvs))"
| "py_setitem (JArr xs) key v = Inl TypeError"
| "py_setitem (JStr s) key v = Inl TypeError"
| "py_setitem JNull key v = Inl TypeError"
| "py_setitem (JBool b) key v = Inl TypeError"
| "py_setitem (JInt n) key v = Inl TypeError"

text \<open>\<^verbatim>\<open>x.get(key, default)\<close>: only a dictionary has the method.\<close>

fun py_get :: "json \<Rightarrow> string \<Rightarrow> json \<Rightarrow> error + json" where
  "py_get (JObj kvs) key d =
     Inr (case map_of kvs key of None \<Rightarrow> d | Some v \<Rightarrow> v)"
| "py_get (JArr xs) key d = Inl AttributeError"
| "py_get (JStr s) key d = Inl AttributeError"
| "py_get JNull key d = Inl AttributeError"
| "py_get (JBool b) key d = Inl AttributeError"
| "py_get (JInt n) key d = Inl AttributeError"

text \<open>\<^verbatim>\<open>x.append(v)\<close> and \<^verbatim>\<open>x.remove(v)\<close>, returning the mutated \<open>x\<close>: list methods.\<close>

fun py_append :: "json \<Rightarrow> json \<Rightarrow> error + json" where
  "py_append (JArr xs) v = Inr (JArr (xs @ [v]))"
| "py_append (JObj kvs) v = Inl AttributeError"
| "py_append (JStr s) v = Inl AttributeError"
| "py_append JNull v = Inl AttributeError"
| "py_append (JBool b) v = Inl AttributeError"
| "py_append (JInt n) v = Inl AttributeError"

fun py_remove :: "json \<Rightarrow> json \<Rightarrow> error + json" where
  "py_remove (JArr xs) v =
     (if v \<in> set xs then Inr (JArr (remove1 v xs)) else Inl ValueError)"
| "py_remove (JObj kvs) v = Inl AttributeError"
| "py_remove (JStr s) v = Inl AttributeError"
| "py_remove JNull v = Inl AttributeError"
| "py_remove (JBool b) v = Inl AttributeError"
| "py_remove (JInt n) v = Inl AttributeError"

section \<open>\<^verbatim>\<open>config.py\<close>\<close>

definition ensure_config_dir :: "unit io" where
  "ensure_config_dir s =
     (case path_exists_dir s of
        (True, s1) \<Rightarrow> (Inr (), s1)
      | (False, s1) \<Rightarrow> makedirs s1)"

text \<open>The items of \<^verbatim>\<open>default_config\<close>, in the order of the dictionary display.\<close>

definition default_items :: "(string \<times> json) list" where
  "default_items =
     [(''custom_repositories'', JArr []),
      (''settings'', JObj [(''cache_expiry'', JInt 300), (''max_cache_size'', JInt 50)])]"

definition default_config :: json where
  "default_config = JObj default_items"

text \<open>
  The loop \<^verbatim>\<open>for key, value in default_config.items(): if key not in config:
  config[key] = value\<close>. Nothing in it requires \<open>config\<close> to be a dictionary.
\<close>

fun merge_defaults :: "(string \<times> json) list \<Rightarrow> json \<Rightarrow> error + json" where
  "merge_defaults [] config = Inr config"
| "merge_defaults ((key, v) # rest) config =
     (case py_contains key config of
        Inl e \<Rightarrow> Inl e
      | Inr True \<Rightarrow> merge_defaults rest config
      | Inr False \<Rightarrow>
          (case py_setitem config key v of
             Inl e \<Rightarrow> Inl e
           | Inr config' \<Rightarrow> merge_defaults rest config'))"

text \<open>
  \<^verbatim>\<open>except (OSError, json.JSONDecodeError)\<close> encloses the read and the loop; every
  other exception leaves \<open>load_config\<close>.
\<close>

definition caught_by_load :: "error \<Rightarrow> bool" where
  "caught_by_load e = (e = OSError \<or> e = JSONDecodeError)"

definition load_config :: "json io" where
  "load_config s =
     (case path_exists_file s of
        (False, s1) \<Rightarrow> (Inr default_config, s1)
      | (True, s1) \<Rightarrow>
          (case read_json s1 of
             (Inl e, s2) \<Rightarrow>
               if caught_by_load e then (Inr default_config, s2) else (Inl e, s2)
           | (Inr config, s2) \<Rightarrow>
               (case merge_defaults default_items config of
                  Inl e \<Rightarrow> if caught_by_load e then (Inr default_config, s2) else (Inl e, s2)
                | Inr config' \<Rightarrow> (Inr config', s2))))"

text \<open>
  \<open>ensure_config_dir()\<close> is called before the \<^verbatim>\<open>try\<close>; \<^verbatim>\<open>except OSError\<close> encloses
  the write only.
\<close>

definition save_config :: "json \<Rightarrow> bool io" where
  "save_config config s =
     (case ensure_config_dir s of
        (Inl e, s1) \<Rightarrow> (Inl e, s1)
      | (Inr u, s1) \<Rightarrow>
          (case write_json config s1 of
             (Inr u', s2) \<Rightarrow> (Inr True, s2)
           | (Inl e, s2) \<Rightarrow> if e = OSError then (Inr False, s2) else (Inl e, s2)))"

definition add_custom_repository :: "string \<Rightarrow> bool io" where
  "add_custom_repository repo_url s =
     (case load_config s of
        (Inl e, s1) \<Rightarrow> (Inl e, s1)
      | (Inr config, s1) \<Rightarrow>
          (case py_getitem config ''custom_repositories'' of
             Inl e \<Rightarrow> (Inl e, s1)
           | Inr repos \<Rightarrow>
               (case py_contains repo_url repos of
                  Inl e \<Rightarrow> (Inl e, s1)
                | Inr True \<Rightarrow> (Inr False, s1)
                | Inr False \<Rightarrow>
                    (case py_append repos (JStr repo_url) of
                       Inl e \<Rightarrow> (Inl e, s1)
                     | Inr repos' \<Rightarrow>
                         (case py_setitem config ''custom_repositories'' repos' of
                            Inl e \<Rightarrow> (Inl e, s1)
                          | Inr config' \<Rightarrow> save_config config' s1)))))"

definition remove_custom_repository :: "string \<Rightarrow> bool io" where
  "remove_custom_repository repo_url s =
     (case load_config s of
        (Inl e, s1) \<Rightarrow> (Inl e, s1)
      | (Inr config, s1) \<Rightarrow>
          (case py_getitem config ''custom_repositories'' of
             Inl e \<Rightarrow> (Inl e, s1)
           | Inr repos \<Rightarrow>
               (case py_contains repo_url repos of
                  Inl e \<Rightarrow> (Inl e, s1)
                | Inr False \<Rightarrow> (Inr False, s1)
                | Inr True \<Rightarrow>
                    (case py_remove repos (JStr repo_url) of
                       Inl e \<Rightarrow> (Inl e, s1)
                     | Inr repos' \<Rightarrow>
                         (case py_setitem config ''custom_repositories'' repos' of
                            Inl e \<Rightarrow> (Inl e, s1)
                          | Inr config' \<Rightarrow> save_config config' s1)))))"

definition get_custom_repositories :: "json io" where
  "get_custom_repositories s =
     (case load_config s of
        (Inl e, s1) \<Rightarrow> (Inl e, s1)
      | (Inr config, s1) \<Rightarrow> (py_get config ''custom_repositories'' (JArr []), s1))"

text \<open>The optional integer \<^verbatim>\<open>default\<close> of \<open>get_setting\<close>: \<^verbatim>\<open>None\<close> is \<open>JNull\<close>.\<close>

fun of_default :: "int option \<Rightarrow> json" where
  "of_default None = JNull"
| "of_default (Some n) = JInt n"

definition get_setting :: "string \<Rightarrow> int option \<Rightarrow> json io" where
  "get_setting key dflt s =
     (case load_config s of
        (Inl e, s1) \<Rightarrow> (Inl e, s1)
      | (Inr config, s1) \<Rightarrow>
          (case py_get config ''settings'' (JObj []) of
             Inl e \<Rightarrow> (Inl e, s1)
           | Inr settings \<Rightarrow> (py_get settings key (of_default dflt), s1)))"

definition set_setting :: "string \<Rightarrow> int \<Rightarrow> bool io" where
  "set_setting key v s =
     (case load_config s of
        (Inl e, s1) \<Rightarrow> (Inl e, s1)
      | (Inr config, s1) \<Rightarrow>
          (case (case py_contains ''settings'' config of
                   Inl e \<Rightarrow> Inl e
                 | Inr True \<Rightarrow> Inr config
                 | Inr False \<Rightarrow> py_setitem config ''settings'' (JObj [])) of
             Inl e \<Rightarrow> (Inl e, s1)
           | Inr config1 \<Rightarrow>
               (case py_getitem config1 ''settings'' of
                  Inl e \<Rightarrow> (Inl e, s1)
                | Inr settings \<Rightarrow>
                    (case py_setitem settings key (JInt v) of
                       Inl e \<Rightarrow> (Inl e, s1)
                     | Inr settings' \<Rightarrow>
                         (case py_setitem config1 ''settings'' settings' of
                            Inl e \<Rightarrow> (Inl e, s1)
                          | Inr config2 \<Rightarrow> save_config config2 s1)))))"

section \<open>Some file systems\<close>

text \<open>A readable and writable file with the given content, in an existing directory.\<close>

definition stored :: "content \<Rightarrow> fs" where
  "stored c =
     \<lparr>dir_present = True, can_mkdir = True, config_file = Some c, can_read = True,
      writing = Writes, encoder_depth = 100, write_calls = 0\<rparr>"

text \<open>A first run: neither the directory nor the file exists, and both can be made.\<close>

definition fresh_home :: fs where
  "fresh_home =
     \<lparr>dir_present = False, can_mkdir = True, config_file = None, can_read = True,
      writing = Writes, encoder_depth = 100, write_calls = 0\<rparr>"

text \<open>
  The file exists with mode \<^verbatim>\<open>0200\<close>: its owner may write it and may not read it.
\<close>

definition write_only_file :: fs where
  "write_only_file =
     \<lparr>dir_present = True, can_mkdir = True, config_file = Some (Json (JObj [])),
      can_read = False, writing = Writes, encoder_depth = 100, write_calls = 0\<rparr>"

text \<open>The directory exists and is read-only; there is no file in it.\<close>

definition read_only_dir :: fs where
  "read_only_dir =
     \<lparr>dir_present = True, can_mkdir = False, config_file = None, can_read = True,
      writing = OpenRaises, encoder_depth = 100, write_calls = 0\<rparr>"

text \<open>
  The directory does not exist and cannot be made (its parent is read-only, or a
  regular file has the name of one of its parents).
\<close>

definition no_dir_no_mkdir :: fs where
  "no_dir_no_mkdir =
     \<lparr>dir_present = False, can_mkdir = False, config_file = None, can_read = True,
      writing = OpenRaises, encoder_depth = 100, write_calls = 0\<rparr>"

section \<open>Some documents\<close>

text \<open>A configuration with both top-level keys.\<close>

definition valid_config :: json where
  "valid_config =
     JObj [(''custom_repositories'', JArr [JStr ''https://example.com/repo'']),
           (''settings'', JObj [(''cache_expiry'', JInt 60)])]"

text \<open>A stored document with a key of its own and no repository list.\<close>

definition partial_document :: json where
  "partial_document =
     JObj [(''theme'', JStr ''dark''), (''settings'', JObj [(''cache_expiry'', JInt 60)])]"

text \<open>A stored document in which one repository is listed twice.\<close>

definition repos_document :: json where
  "repos_document =
     JObj [(''custom_repositories'', JArr [JStr ''a'', JStr ''b'', JStr ''a'']),
           (''settings'', JObj [])]"

text \<open>The file system after \<^verbatim>\<open>set_setting("x", 1)\<close> on a first run.\<close>

definition after_set_x :: fs where
  "after_set_x =
     (stored (Json (JObj [(''custom_repositories'', JArr []),
                          (''settings'', JObj [(''cache_expiry'', JInt 300),
                                               (''max_cache_size'', JInt 50),
                                               (''x'', JInt 1)])])))
       \<lparr>write_calls := 2\<rparr>"

text \<open>
  The file of \<open>write_only_file\<close>, holding a configuration that lists one repository.
\<close>

definition write_only_with_repo :: fs where
  "write_only_with_repo =
     \<lparr>dir_present = True, can_mkdir = True, config_file = Some (Json valid_config),
      can_read = False, writing = Writes, encoder_depth = 100, write_calls = 0\<rparr>"

section \<open>What the file holds\<close>

text \<open>
  The repository list that the file holds, read off its content and not through
  \<open>load_config\<close>: the list under \<^verbatim>\<open>custom_repositories\<close> of the stored dictionary; the
  empty list when there is no file or the stored dictionary has no such key; nothing
  when the content is not a dictionary or has something other than a list under the key.
\<close>

definition stored_repository_list :: "fs \<Rightarrow> json list option" where
  "stored_repository_list s =
     (case config_file s of
        None \<Rightarrow> Some []
      | Some (Json (JObj kvs)) \<Rightarrow>
          (case map_of kvs ''custom_repositories'' of
             None \<Rightarrow> Some []
           | Some (JArr xs) \<Rightarrow> Some xs
           | Some other \<Rightarrow> None)
      | Some other \<Rightarrow> None)"

section \<open>Basic facts\<close>

subsection \<open>Loading\<close>

lemma read_json_state: "snd (read_json s) = s"
  by (simp add: read_json_def split: option.splits content.splits)

lemma load_config_state: "snd (load_config s) = s"
  using read_json_state[of s]
  by (auto simp add: load_config_def path_exists_file_def
      split: prod.splits bool.splits sum.splits)

lemma load_config_result: "load_config s = (fst (load_config s), s)"
  using load_config_state[of s] by (metis prod.collapse)

text \<open>The loop raises nothing that the \<^verbatim>\<open>except\<close> clause of \<open>load_config\<close> catches.\<close>

lemma merge_defaults_error: "merge_defaults ds j = Inl e \<Longrightarrow> e = TypeError"
  by (induction ds j rule: merge_defaults.induct)
    (auto split: sum.splits bool.splits elim: py_contains.elims py_setitem.elims)

lemma load_config_absent:
  "config_file s = None \<Longrightarrow> load_config s = (Inr default_config, s)"
  by (simp add: load_config_def path_exists_file_def)

lemma load_config_unreadable:
  "\<not> can_read s \<Longrightarrow> load_config s = (Inr default_config, s)"
  by (cases "config_file s")
    (simp_all add: load_config_def path_exists_file_def read_json_def caught_by_load_def)

lemma load_config_malformed:
  "config_file s = Some Malformed \<Longrightarrow> load_config s = (Inr default_config, s)"
  by (simp add: load_config_def path_exists_file_def read_json_def caught_by_load_def)

lemma load_config_undecodable:
  "config_file s = Some Undecodable \<Longrightarrow> can_read s \<Longrightarrow>
   load_config s = (Inl UnicodeDecodeError, s)"
  by (simp add: load_config_def path_exists_file_def read_json_def caught_by_load_def)

lemma load_config_too_deep:
  "config_file s = Some TooDeep \<Longrightarrow> can_read s \<Longrightarrow>
   load_config s = (Inl RecursionError, s)"
  by (simp add: load_config_def path_exists_file_def read_json_def caught_by_load_def)

lemma load_config_huge_integer:
  "config_file s = Some HugeInteger \<Longrightarrow> can_read s \<Longrightarrow>
   load_config s = (Inl ValueError, s)"
  by (simp add: load_config_def path_exists_file_def read_json_def caught_by_load_def)

lemma load_config_json:
  "config_file s = Some (Json j) \<Longrightarrow> can_read s \<Longrightarrow>
   load_config s = (merge_defaults default_items j, s)"
  by (auto simp add: load_config_def path_exists_file_def read_json_def caught_by_load_def
      split: sum.splits dest: merge_defaults_error)

lemma load_config_cases:
  "load_config s = (Inr default_config, s) \<or>
   (\<exists>e. load_config s = (Inl e, s)) \<or>
   (\<exists>j. config_file s = Some (Json j) \<and> can_read s \<and>
        load_config s = (merge_defaults default_items j, s))"
proof (cases "config_file s")
  case None
  then show ?thesis by (simp add: load_config_absent)
next
  case (Some c)
  show ?thesis
  proof (cases "can_read s")
    case False
    then show ?thesis by (simp add: load_config_unreadable)
  next
    case True
    with Some show ?thesis
      by (cases c)
        (simp_all add: load_config_malformed load_config_undecodable load_config_too_deep
          load_config_huge_integer load_config_json)
  qed
qed

subsection \<open>The merge on a dictionary\<close>

lemma update_new_key:
  "key \<notin> fst ` set kvs \<Longrightarrow> AList.update key v kvs = kvs @ [(key, v)]"
  by (induction kvs) auto

lemma merge_defaults_object:
  "merge_defaults default_items (JObj kvs) =
     Inr (JObj (kvs @ filter (\<lambda>(key, v). key \<notin> fst ` set kvs) default_items))"
  by (simp add: default_items_def update_new_key)

lemma merge_defaults_complete:
  "''custom_repositories'' \<in> fst ` set kvs \<Longrightarrow> ''settings'' \<in> fst ` set kvs \<Longrightarrow>
   merge_defaults default_items (JObj kvs) = Inr (JObj kvs)"
  by (simp add: merge_defaults_object default_items_def)

lemma default_config_keys:
  "default_config = JObj kvs \<Longrightarrow>
   ''custom_repositories'' \<in> fst ` set kvs \<and> ''settings'' \<in> fst ` set kvs"
  by (auto simp: default_config_def default_items_def)

lemma merge_defaults_keys:
  "merge_defaults default_items j = Inr (JObj kvs) \<Longrightarrow>
   ''custom_repositories'' \<in> fst ` set kvs \<and> ''settings'' \<in> fst ` set kvs"
  by (cases j)
    (auto simp: default_items_def update_new_key dom_update split: if_splits bool.splits)

text \<open>A dictionary that \<open>load_config\<close> returns has both keys.\<close>

lemma load_config_object_keys:
  assumes "fst (load_config s) = Inr (JObj kvs)"
  shows "''custom_repositories'' \<in> fst ` set kvs \<and> ''settings'' \<in> fst ` set kvs"
  using load_config_cases[of s] assms
  by (auto dest: default_config_keys merge_defaults_keys)

subsection \<open>Saving\<close>

lemma ensure_config_dir_cases:
  "ensure_config_dir s =
     (if dir_present s then (Inr (), s)
      else if can_mkdir s then (Inr (), s\<lparr>write_calls := Suc (write_calls s), dir_present := True\<rparr>)
      else (Inl OSError, s\<lparr>write_calls := Suc (write_calls s)\<rparr>))"
  by (simp add: ensure_config_dir_def path_exists_dir_def makedirs_def Let_def)

text \<open>Integers of a few digits are far below the limit.\<close>

lemma int_fits_small: "\<bar>n\<bar> < 1000 \<Longrightarrow> int_fits n"
proof -
  have "(10::int) ^ 3 \<le> 10 ^ max_str_digits"
    by (rule power_increasing) (simp_all add: max_str_digits_def)
  then show "\<bar>n\<bar> < 1000 \<Longrightarrow> int_fits n"
    by (simp add: int_fits_def)
qed

lemma save_config_can_read: "can_read (snd (save_config config s)) = can_read s"
  by (simp add: save_config_def ensure_config_dir_cases write_json_def Let_def
      split: write_behaviour.splits option.splits)

lemma save_config_True:
  "fst (save_config config s) = Inr True \<Longrightarrow>
   config_file (snd (save_config config s)) = Some (Json config)"
  by (simp add: save_config_def ensure_config_dir_cases write_json_def Let_def
      split: write_behaviour.splits option.splits if_splits)

text \<open>
  Once the directory is there and the document can be encoded, the outcome of the write
  is the result.
\<close>

lemma save_config_catches_write_error:
  "dir_present s \<or> can_mkdir s \<Longrightarrow> dump_error (encoder_depth s) config = None \<Longrightarrow>
   fst (save_config config s) = Inr (writing s = Writes)"
  by (auto simp add: save_config_def ensure_config_dir_cases write_json_def Let_def
      split: write_behaviour.splits)

lemma save_config_raises:
  "\<not> dir_present s \<Longrightarrow> \<not> can_mkdir s \<Longrightarrow>
   save_config config s = (Inl OSError, s\<lparr>write_calls := Suc (write_calls s)\<rparr>)"
  by (simp add: save_config_def ensure_config_dir_cases)

subsection \<open>Lookups in an extended dictionary\<close>

lemma map_of_append_absent:
  "key \<notin> fst ` set kvs \<Longrightarrow> map_of (kvs @ extra) key = map_of extra key"
proof -
  assume "key \<notin> fst ` set kvs"
  then have "map_of kvs key = None" by (simp add: map_of_eq_None_iff)
  then show ?thesis by (simp add: map_add_def)
qed

lemma map_of_append_present:
  "map_of kvs key = Some v \<Longrightarrow> map_of (kvs @ extra) key = Some v"
  by simp

lemma load_after_save:
  assumes "''custom_repositories'' \<in> fst ` set kvs" and "''settings'' \<in> fst ` set kvs"
    and "fst (save_config (JObj kvs) s) = Inr True"
    and "can_read s"
  shows "load_config (snd (save_config (JObj kvs) s))
           = (Inr (JObj kvs), snd (save_config (JObj kvs) s))"
  using assms
  by (simp add: load_config_json[OF save_config_True] save_config_can_read merge_defaults_complete)

lemma get_custom_repositories_unfold:
  assumes "fst (load_config s) = Inr (JObj kvs)"
  shows "get_custom_repositories s =
     (Inr (case map_of kvs ''custom_repositories'' of None \<Rightarrow> JArr [] | Some v \<Rightarrow> v), s)"
  unfolding get_custom_repositories_def
  by (subst load_config_result) (simp add: assms)

subsection \<open>The operations on a loaded dictionary\<close>

lemma remove1_first: "x \<notin> set ys \<Longrightarrow> remove1 x (ys @ x # zs) = ys @ zs"
  by (simp add: remove1_append)

lemma remove_custom_repository_unfold:
  assumes "fst (load_config s) = Inr (JObj kvs)"
    and "map_of kvs ''custom_repositories'' = Some (JArr xs)"
  shows "remove_custom_repository url s =
     (if JStr url \<in> set xs
      then save_config (JObj (AList.update ''custom_repositories'' (JArr (remove1 (JStr url) xs)) kvs)) s
      else (Inr False, s))"
  unfolding remove_custom_repository_def
  by (subst load_config_result) (simp add: assms)

lemma add_custom_repository_unfold:
  assumes "fst (load_config s) = Inr (JObj kvs)"
    and "map_of kvs ''custom_repositories'' = Some (JArr xs)"
  shows "add_custom_repository url s =
     (if JStr url \<in> set xs then (Inr False, s)
      else save_config (JObj (AList.update ''custom_repositories'' (JArr (xs @ [JStr url])) kvs)) s)"
  unfolding add_custom_repository_def
  by (subst load_config_result) (simp add: assms)

lemma get_setting_unfold:
  assumes "fst (load_config s) = Inr (JObj kvs)"
    and "map_of kvs ''settings'' = Some (JObj skvs)"
  shows "get_setting key dflt s =
     (Inr (case map_of skvs key of None \<Rightarrow> of_default dflt | Some v \<Rightarrow> v), s)"
  unfolding get_setting_def
  by (subst load_config_result) (simp add: assms)

lemma py_setitem_Inr: "py_setitem j key v = Inr j' \<Longrightarrow> \<exists>kvs. j = JObj kvs"
  by (cases j) simp_all

lemma py_getitem_Inr:
  "py_getitem j key = Inr v \<Longrightarrow> \<exists>kvs. j = JObj kvs \<and> map_of kvs key = Some v"
  by (cases j) (simp_all split: option.splits)

text \<open>
  A \<open>set_setting\<close> that returns found a dictionary with a \<open>settings\<close> dictionary, and
  its result is that of saving the dictionary with the one setting changed.
\<close>

lemma set_setting_returns:
  assumes "fst (set_setting key v s) = Inr b"
  shows "\<exists>kvs skvs. fst (load_config s) = Inr (JObj kvs)
           \<and> map_of kvs ''settings'' = Some (JObj skvs)
           \<and> set_setting key v s
               = save_config
                   (JObj (AList.update ''settings''
                            (JObj (AList.update key (JInt v) skvs)) kvs)) s"
proof (cases "fst (load_config s)")
  case (Inl e)
  with assms show ?thesis
    unfolding set_setting_def by (subst (asm) load_config_result) simp
next
  case (Inr config)
  show ?thesis
  proof (cases "\<exists>kvs. config = JObj kvs")
    case False
    then have "\<forall>key v j'. py_setitem config key v \<noteq> Inr j'"
      and "\<forall>key v. py_getitem config key \<noteq> Inr v"
      using py_setitem_Inr py_getitem_Inr by blast+
    then have "fst (set_setting key v s) \<noteq> Inr b"
      unfolding set_setting_def using Inr
      by (subst load_config_result) (simp split: sum.splits bool.splits)
    with assms show ?thesis by simp
  next
    case True
    then obtain kvs where c: "config = JObj kvs" ..
    with Inr have l: "fst (load_config s) = Inr (JObj kvs)" by simp
    from load_config_object_keys[OF l] have k: "''settings'' \<in> fst ` set kvs" by simp
    then obtain sv where m: "map_of kvs ''settings'' = Some sv"
      by (metis map_of_eq_None_iff not_Some_eq)
    have u: "set_setting key v s =
        (case py_setitem sv key (JInt v) of
           Inl e \<Rightarrow> (Inl e, s)
         | Inr settings' \<Rightarrow> save_config (JObj (AList.update ''settings'' settings' kvs)) s)"
      unfolding set_setting_def using l k m
      by (subst load_config_result) (simp split: sum.splits)
    show ?thesis
    proof (cases sv)
      case (JObj skvs)
      with u l m show ?thesis by simp
    qed (use u assms in simp_all)
  qed
qed

subsection \<open>The stored list and the loaded list\<close>

lemma stored_repository_list_json:
  "config_file s = Some (Json (JObj kvs)) \<Longrightarrow>
   map_of kvs ''custom_repositories'' = Some (JArr xs) \<Longrightarrow>
   stored_repository_list s = Some xs"
  by (simp add: stored_repository_list_def)

text \<open>
  When the file, if there is one, can be read, the list that \<open>load_config\<close> returns is
  the list that the file holds.
\<close>

lemma stored_list_loaded:
  assumes "stored_repository_list s = Some xs" and "config_file s \<noteq> None \<longrightarrow> can_read s"
  shows "\<exists>kvs'. fst (load_config s) = Inr (JObj kvs')
           \<and> map_of kvs' ''custom_repositories'' = Some (JArr xs)"
proof (cases "config_file s")
  case None
  with assms(1) have "xs = []" by (simp add: stored_repository_list_def)
  moreover have "fst (load_config s) = Inr (JObj default_items)"
    using None by (simp add: load_config_absent default_config_def)
  moreover have "map_of default_items ''custom_repositories'' = Some (JArr [])"
    by (simp add: default_items_def)
  ultimately show ?thesis by (intro exI[of _ default_items]) simp
next
  case (Some c)
  with assms(2) have r: "can_read s" by simp
  from assms(1) Some obtain kvs where c: "c = Json (JObj kvs)"
    by (auto simp: stored_repository_list_def split: content.splits json.splits)
  define extra where "extra = filter (\<lambda>(key, v). key \<notin> fst ` set kvs) default_items"
  have l: "fst (load_config s) = Inr (JObj (kvs @ extra))"
    using Some c r by (simp add: load_config_json merge_defaults_object extra_def)
  have "map_of (kvs @ extra) ''custom_repositories'' = Some (JArr xs)"
  proof (cases "map_of kvs ''custom_repositories''")
    case None
    with assms(1) Some c have x: "xs = []" by (simp add: stored_repository_list_def)
    from None have "''custom_repositories'' \<notin> fst ` set kvs" by (simp add: map_of_eq_None_iff)
    then have "map_of (kvs @ extra) ''custom_repositories'' = Some (JArr [])"
      by (subst map_of_append_absent) (simp_all add: extra_def default_items_def)
    with x show ?thesis by simp
  next
    case (Some v)
    with assms(1) \<open>config_file s = Some c\<close> c have "v = JArr xs"
      by (auto simp: stored_repository_list_def split: json.splits)
    with Some show ?thesis by (simp add: map_of_append_present)
  qed
  with l show ?thesis by (intro exI[of _ "kvs @ extra"]) simp
qed

subsection \<open>The settings that are loaded\<close>

text \<open>The settings that \<open>load_config\<close> returns when the file holds a settings mapping.\<close>

lemma loaded_settings_stored:
  assumes "config_file s = Some (Json (JObj kvs))" and "can_read s"
    and "map_of kvs ''settings'' = Some v"
  shows "\<exists>kvs'. fst (load_config s) = Inr (JObj kvs') \<and> map_of kvs' ''settings'' = Some v"
proof -
  define extra where "extra = filter (\<lambda>(key, v). key \<notin> fst ` set kvs) default_items"
  have "fst (load_config s) = Inr (JObj (kvs @ extra))"
    using assms by (simp add: load_config_json merge_defaults_object extra_def)
  moreover have "map_of (kvs @ extra) ''settings'' = Some v"
    using assms(3) by (rule map_of_append_present)
  ultimately show ?thesis by (intro exI[of _ "kvs @ extra"] conjI)
qed

text \<open>The settings that \<open>load_config\<close> returns when it falls back or fills in.\<close>

lemma loaded_settings_default:
  assumes "config_file s = None \<or> \<not> can_read s \<or> config_file s = Some Malformed
           \<or> (\<exists>kvs. config_file s = Some (Json (JObj kvs)) \<and> ''settings'' \<notin> fst ` set kvs)"
  shows "\<exists>kvs'. fst (load_config s) = Inr (JObj kvs')
           \<and> map_of kvs' ''settings''
               = Some (JObj [(''cache_expiry'', JInt 300), (''max_cache_size'', JInt 50)])"
proof (cases "config_file s = None \<or> \<not> can_read s \<or> config_file s = Some Malformed")
  case True
  then have "load_config s = (Inr default_config, s)"
    by (auto simp: load_config_absent load_config_unreadable load_config_malformed)
  then have "fst (load_config s) = Inr (JObj default_items)"
    by (simp add: default_config_def)
  moreover have "map_of default_items ''settings''
      = Some (JObj [(''cache_expiry'', JInt 300), (''max_cache_size'', JInt 50)])"
    by (simp add: default_items_def)
  ultimately show ?thesis by (intro exI[of _ default_items] conjI)
next
  case False
  with assms obtain kvs where c: "config_file s = Some (Json (JObj kvs))"
    and n: "''settings'' \<notin> fst ` set kvs" and r: "can_read s"
    by auto
  define extra where "extra = filter (\<lambda>(key, v). key \<notin> fst ` set kvs) default_items"
  have "fst (load_config s) = Inr (JObj (kvs @ extra))"
    using c r by (simp add: load_config_json merge_defaults_object extra_def)
  moreover have "map_of (kvs @ extra) ''settings''
      = Some (JObj [(''cache_expiry'', JInt 300), (''max_cache_size'', JInt 50)])"
    using n by (subst map_of_append_absent) (simp_all add: extra_def default_items_def)
  ultimately show ?thesis by (intro exI[of _ "kvs @ extra"] conjI)
qed

section \<open>The claims\<close>

text \<open>
  C2, as amended. \<open>load_config\<close> returns the full default configuration, an empty
  repository list and the settings \<open>cache_expiry = 300\<close>, \<open>max_cache_size = 50\<close>, when
  the file does not exist, when it exists and reading it raises \<^verbatim>\<open>OSError\<close>, and when
  its text violates the JSON grammar, so that the parser raises
  \<^verbatim>\<open>json.JSONDecodeError\<close>. It raises nothing then, and the file system afterwards is
  the one before: no file is created or modified.
\<close>

theorem load_config_default_fallback:
  assumes "config_file s = None
           \<or> (config_file s \<noteq> None \<and> \<not> can_read s)
           \<or> config_file s = Some Malformed"
  shows "load_config s =
           (Inr (JObj [(''custom_repositories'', JArr []),
                       (''settings'', JObj [(''cache_expiry'', JInt 300),
                                            (''max_cache_size'', JInt 50)])]),
            s)"
proof -
  have "load_config s = (Inr default_config, s)"
    using assms by (auto simp: load_config_absent load_config_unreadable load_config_malformed)
  then show ?thesis by (simp add: default_config_def default_items_def)
qed

theorem load_config_default_fallback_witness:
  "fst (load_config fresh_home) = Inr default_config
   \<and> fst (load_config write_only_file) = Inr default_config
   \<and> fst (load_config (stored Malformed)) = Inr default_config
   \<and> snd (load_config (stored Malformed)) = stored Malformed"
  using load_config_default_fallback[of fresh_home]
        load_config_default_fallback[of write_only_file]
        load_config_default_fallback[of "stored Malformed"]
  by (simp add: fresh_home_def write_only_file_def stored_def default_config_def
      default_items_def)

theorem load_config_uncaught_counterexample:
  "load_config (stored Undecodable) = (Inl UnicodeDecodeError, stored Undecodable)
   \<and> load_config (stored TooDeep) = (Inl RecursionError, stored TooDeep)
   \<and> load_config (stored HugeInteger) = (Inl ValueError, stored HugeInteger)"
  by (simp add: load_config_undecodable load_config_too_deep load_config_huge_integer
      stored_def)

text \<open>
  C10. \<open>load_config\<close>, \<open>get_custom_repositories\<close> and \<open>get_setting\<close> leave every file
  system as they found it: the content of the file or its absence, the directory, and
  the count of calls to the modifying primitives are the same before and after, whatever
  the call returns or raises.
\<close>

theorem readers_leave_file_system_unchanged:
  "snd (load_config s) = s
   \<and> snd (get_custom_repositories s) = s
   \<and> snd (get_setting key dflt s) = s"
proof -
  have l: "load_config s = (fst (load_config s), s)" by (rule load_config_result)
  have "snd (get_custom_repositories s) = s"
    unfolding get_custom_repositories_def by (subst l) (simp split: sum.splits)
  moreover have "snd (get_setting key dflt s) = s"
    unfolding get_setting_def by (subst l) (simp split: sum.splits)
  ultimately show ?thesis by (simp add: load_config_state)
qed

text \<open>
  C9. The fallback of \<open>load_config\<close> covers \<^verbatim>\<open>OSError\<close> and \<^verbatim>\<open>json.JSONDecodeError\<close>
  only. On a readable file whose text is the JSON number \<^verbatim>\<open>5\<close>, and on one whose text
  is the JSON array \<^verbatim>\<open>[1, 2]\<close>, the merge loop raises \<^verbatim>\<open>TypeError\<close>, which is not
  caught: \<open>load_config\<close> raises instead of returning the default configuration.
\<close>

theorem load_config_raises_on_non_object:
  "load_config (stored (Json (JInt 5))) = (Inl TypeError, stored (Json (JInt 5)))
   \<and> load_config (stored (Json (JArr [JInt 1, JInt 2])))
       = (Inl TypeError, stored (Json (JArr [JInt 1, JInt 2])))
   \<and> \<not> caught_by_load TypeError"
  by (simp add: load_config_def path_exists_file_def read_json_def stored_def
      default_items_def caught_by_load_def)

text \<open>
  C1, as amended. For every configuration with both top-level keys, if \<open>save_config\<close>
  returns \<^verbatim>\<open>True\<close> and the file can then be read (opening and reading it raises no
  \<^verbatim>\<open>OSError\<close>), the \<open>load_config\<close> that follows returns that configuration.
\<close>

theorem save_then_load_when_readable:
  assumes "''custom_repositories'' \<in> fst ` set kvs" and "''settings'' \<in> fst ` set kvs"
    and "fst (save_config (JObj kvs) s) = Inr True"
    and "can_read (snd (save_config (JObj kvs) s))"
  shows "fst (load_config (snd (save_config (JObj kvs) s))) = Inr (JObj kvs)"
  using assms
  by (simp add: load_config_json[OF save_config_True] merge_defaults_complete)

theorem save_then_load_when_readable_witness:
  "fst (save_config valid_config fresh_home) = Inr True
   \<and> fst (load_config (snd (save_config valid_config fresh_home))) = Inr valid_config"
proof -
  have s: "save_config valid_config fresh_home =
      (Inr True, \<lparr>dir_present = True, can_mkdir = True, config_file = Some (Json valid_config),
        can_read = True, writing = Writes, encoder_depth = 100, write_calls = 2\<rparr>)"
    by (simp add: save_config_def ensure_config_dir_cases write_json_def fresh_home_def
        valid_config_def int_fits_small)
  show ?thesis
    using save_then_load_when_readable[of "[(''custom_repositories'', JArr [JStr ''https://example.com/repo'']),
           (''settings'', JObj [(''cache_expiry'', JInt 60)])]" fresh_home]
    by (simp add: valid_config_def[symmetric] s)
qed

theorem save_then_load_write_only_counterexample:
  "fst (save_config valid_config write_only_file) = Inr True
   \<and> fst (load_config (snd (save_config valid_config write_only_file))) = Inr default_config
   \<and> default_config \<noteq> valid_config
   \<and> py_contains ''custom_repositories'' valid_config = Inr True
   \<and> py_contains ''settings'' valid_config = Inr True"
  by (simp add: save_config_def ensure_config_dir_cases write_json_def write_only_file_def
      load_config_unreadable valid_config_def default_config_def default_items_def
      int_fits_small)

text \<open>
  C6. On a file system where the configuration directory is absent and cannot be made,
  \<open>save_config\<close> does not return: \<^verbatim>\<open>os.makedirs\<close> raises \<^verbatim>\<open>OSError\<close> outside the
  \<^verbatim>\<open>try\<close>, and the exception leaves \<open>save_config\<close>.
\<close>

theorem save_config_propagates_mkdir_error:
  "save_config default_config no_dir_no_mkdir = (Inl OSError, no_dir_no_mkdir\<lparr>write_calls := 1\<rparr>)"
  by (simp add: save_config_raises no_dir_no_mkdir_def)

text \<open>
  C3. For every stored document that parses as a dictionary, \<open>load_config\<close> returns
  a dictionary in which each of the two top-level keys that the document lacks has its
  built-in default, and every key that the document has keeps its value: a \<open>settings\<close>
  mapping that is present is returned as it is, with no default key put into it. The
  document \<^verbatim>\<open>{}\<close> gives the full default configuration.
\<close>

theorem load_config_backfills_top_level_keys:
  assumes "config_file s = Some (Json (JObj kvs))" and "can_read s"
  shows "\<exists>kvs'. load_config s = (Inr (JObj kvs'), s)
           \<and> (''custom_repositories'' \<notin> fst ` set kvs \<longrightarrow>
                map_of kvs' ''custom_repositories'' = Some (JArr []))
           \<and> (''settings'' \<notin> fst ` set kvs \<longrightarrow>
                map_of kvs' ''settings''
                  = Some (JObj [(''cache_expiry'', JInt 300), (''max_cache_size'', JInt 50)]))
           \<and> (\<forall>key v. map_of kvs key = Some v \<longrightarrow> map_of kvs' key = Some v)
           \<and> (kvs = [] \<longrightarrow> JObj kvs' = default_config)"
proof -
  define extra where "extra = filter (\<lambda>(key, v). key \<notin> fst ` set kvs) default_items"
  have l: "load_config s = (Inr (JObj (kvs @ extra)), s)"
    using assms by (simp add: load_config_json merge_defaults_object extra_def)
  have r: "map_of (kvs @ extra) ''custom_repositories'' = Some (JArr [])"
    if "''custom_repositories'' \<notin> fst ` set kvs"
    using that by (subst map_of_append_absent) (simp_all add: extra_def default_items_def)
  have t: "map_of (kvs @ extra) ''settings''
             = Some (JObj [(''cache_expiry'', JInt 300), (''max_cache_size'', JInt 50)])"
    if "''settings'' \<notin> fst ` set kvs"
    using that by (subst map_of_append_absent) (simp_all add: extra_def default_items_def)
  have p: "\<forall>key v. map_of kvs key = Some v \<longrightarrow> map_of (kvs @ extra) key = Some v"
    by (simp add: map_of_append_present)
  have e: "JObj (kvs @ extra) = default_config" if "kvs = []"
    using that by (simp add: extra_def default_config_def default_items_def)
  show ?thesis
  proof (intro exI[of _ "kvs @ extra"] conjI impI)
    show "load_config s = (Inr (JObj (kvs @ extra)), s)" by (rule l)
  qed (use r t p e in blast)+
qed

theorem load_config_backfills_top_level_keys_witness:
  "\<exists>kvs'. load_config (stored (Json partial_document))
            = (Inr (JObj kvs'), stored (Json partial_document))
     \<and> kvs' = [(''theme'', JStr ''dark''), (''settings'', JObj [(''cache_expiry'', JInt 60)]),
                (''custom_repositories'', JArr [])]
     \<and> map_of kvs' ''custom_repositories'' = Some (JArr [])
     \<and> map_of kvs' ''settings'' = Some (JObj [(''cache_expiry'', JInt 60)])"
proof -
  let ?kvs = "[(''theme'', JStr ''dark''), (''settings'', JObj [(''cache_expiry'', JInt 60)])]"
  have h1: "config_file (stored (Json partial_document)) = Some (Json (JObj ?kvs))"
    by (simp add: stored_def partial_document_def)
  have h2: "can_read (stored (Json partial_document))"
    by (simp add: stored_def)
  have a: "''custom_repositories'' \<notin> fst ` set ?kvs" by simp
  have b: "map_of ?kvs ''settings'' = Some (JObj [(''cache_expiry'', JInt 60)])" by simp
  from load_config_backfills_top_level_keys[OF h1 h2] a b
  obtain kvs' where k: "load_config (stored (Json partial_document))
        = (Inr (JObj kvs'), stored (Json partial_document))"
      "map_of kvs' ''custom_repositories'' = Some (JArr [])"
      "map_of kvs' ''settings'' = Some (JObj [(''cache_expiry'', JInt 60)])"
    by blast
  have "load_config (stored (Json partial_document))
      = (Inr (JObj (?kvs @ [(''custom_repositories'', JArr [])])), stored (Json partial_document))"
    by (simp add: load_config_json[OF h1 h2] default_items_def)
  with k(1) have "kvs' = ?kvs @ [(''custom_repositories'', JArr [])]" by simp
  with k show ?thesis by simp
qed

text \<open>
  C8. For every stored document that parses as a dictionary, \<open>load_config\<close> returns
  the entries of the document in their order, followed by entries for the two known keys
  only; a key other than these two has in the result the value it has in the document.
  A \<open>save_config\<close> of the result that returns \<^verbatim>\<open>True\<close> stores exactly that dictionary.
\<close>

theorem load_config_keeps_unknown_keys:
  assumes "config_file s = Some (Json (JObj kvs))" and "can_read s"
  shows "\<exists>extra. load_config s = (Inr (JObj (kvs @ extra)), s)
           \<and> fst ` set extra \<subseteq> {''custom_repositories'', ''settings''}
           \<and> (\<forall>key. key \<noteq> ''custom_repositories'' \<and> key \<noteq> ''settings'' \<longrightarrow>
                 map_of (kvs @ extra) key = map_of kvs key)
           \<and> (fst (save_config (JObj (kvs @ extra)) s) = Inr True \<longrightarrow>
                 config_file (snd (save_config (JObj (kvs @ extra)) s))
                   = Some (Json (JObj (kvs @ extra))))"
proof -
  define extra where "extra = filter (\<lambda>(key, v). key \<notin> fst ` set kvs) default_items"
  have l: "load_config s = (Inr (JObj (kvs @ extra)), s)"
    using assms by (simp add: load_config_json merge_defaults_object extra_def)
  have e: "fst ` set extra \<subseteq> {''custom_repositories'', ''settings''}"
    by (auto simp: extra_def default_items_def)
  have n: "map_of extra key = None" if "key \<noteq> ''custom_repositories'' \<and> key \<noteq> ''settings''" for key
    using that by (simp add: extra_def default_items_def)
  have m: "\<forall>key. key \<noteq> ''custom_repositories'' \<and> key \<noteq> ''settings'' \<longrightarrow>
      map_of (kvs @ extra) key = map_of kvs key"
    using n by (simp add: map_add_def split: option.splits)
  have v: "fst (save_config (JObj (kvs @ extra)) s) = Inr True \<longrightarrow>
      config_file (snd (save_config (JObj (kvs @ extra)) s)) = Some (Json (JObj (kvs @ extra)))"
    by (simp add: save_config_True)
  show ?thesis
    by (rule exI[of _ extra]) (intro conjI l e m v)
qed

theorem load_config_keeps_unknown_keys_witness:
  "\<exists>extra. load_config (stored (Json partial_document))
       = (Inr (JObj ([(''theme'', JStr ''dark''), (''settings'', JObj [(''cache_expiry'', JInt 60)])]
                       @ extra)),
          stored (Json partial_document))
     \<and> map_of ([(''theme'', JStr ''dark''), (''settings'', JObj [(''cache_expiry'', JInt 60)])]
                 @ extra) ''theme'' = Some (JStr ''dark'')"
proof -
  let ?kvs = "[(''theme'', JStr ''dark''), (''settings'', JObj [(''cache_expiry'', JInt 60)])]"
  let ?s = "stored (Json partial_document)"
  have h1: "config_file ?s = Some (Json (JObj ?kvs))"
    by (simp add: stored_def partial_document_def)
  have h2: "can_read ?s"
    by (simp add: stored_def)
  have a: "''theme'' \<noteq> ''custom_repositories'' \<and> ''theme'' \<noteq> ''settings''" by simp
  have b: "map_of ?kvs ''theme'' = Some (JStr ''dark'')" by simp
  from load_config_keeps_unknown_keys[OF h1 h2] show ?thesis
  proof (elim exE conjE)
    fix extra
    assume l: "load_config ?s = (Inr (JObj (?kvs @ extra)), ?s)"
      and m: "\<forall>key. key \<noteq> ''custom_repositories'' \<and> key \<noteq> ''settings'' \<longrightarrow>
                map_of (?kvs @ extra) key = map_of ?kvs key"
    have "map_of (?kvs @ extra) ''theme'' = Some (JStr ''dark'')"
      using m[rule_format, OF a] b by (rule trans)
    with l show ?thesis by (intro exI[of _ extra] conjI)
  qed
qed

text \<open>
  C5, as amended. Let the file, if there is one, be readable, and let \<open>xs\<close> be the
  repository list that it holds. Then \<open>load_config\<close> returns a dictionary with \<open>xs\<close>
  under \<^verbatim>\<open>custom_repositories\<close>. If \<open>url\<close> is not in \<open>xs\<close>,
  \<open>remove_custom_repository\<close> returns \<^verbatim>\<open>False\<close> and the file system is the one before:
  the file is untouched and no modifying call was made. If \<open>url\<close> is in \<open>xs\<close>, with
  \<open>ys\<close> the entries before its first occurrence and \<open>zs\<close> those after, the outcome is
  that of \<open>save_config\<close> on the loaded dictionary with the list \<open>ys @ zs\<close>.
\<close>

theorem remove_custom_repository_stored_list:
  assumes "stored_repository_list s = Some xs" and "config_file s \<noteq> None \<longrightarrow> can_read s"
  shows "\<exists>kvs'. fst (load_config s) = Inr (JObj kvs')
           \<and> map_of kvs' ''custom_repositories'' = Some (JArr xs)
           \<and> (JStr url \<notin> set xs \<longrightarrow> remove_custom_repository url s = (Inr False, s))
           \<and> (\<forall>ys zs. xs = ys @ JStr url # zs \<and> JStr url \<notin> set ys \<longrightarrow>
                 remove_custom_repository url s
                   = save_config
                       (JObj (AList.update ''custom_repositories'' (JArr (ys @ zs)) kvs')) s)"
proof -
  from stored_list_loaded[OF assms] obtain kvs' where
    l: "fst (load_config s) = Inr (JObj kvs')" and
    m: "map_of kvs' ''custom_repositories'' = Some (JArr xs)"
    by (elim exE conjE)
  have a: "JStr url \<notin> set xs \<longrightarrow> remove_custom_repository url s = (Inr False, s)"
    by (simp add: remove_custom_repository_unfold[OF l m])
  have b: "\<forall>ys zs. xs = ys @ JStr url # zs \<and> JStr url \<notin> set ys \<longrightarrow>
      remove_custom_repository url s
        = save_config (JObj (AList.update ''custom_repositories'' (JArr (ys @ zs)) kvs')) s"
    by (simp add: remove_custom_repository_unfold[OF l m] remove1_first)
  from l m a b show ?thesis by (intro exI[of _ kvs'] conjI)
qed

theorem remove_custom_repository_stored_list_witness:
  "stored_repository_list (stored (Json repos_document)) = Some [JStr ''a'', JStr ''b'', JStr ''a'']
   \<and> remove_custom_repository ''c'' (stored (Json repos_document))
     = (Inr False, stored (Json repos_document))
   \<and> remove_custom_repository ''a'' (stored (Json repos_document))
     = (Inr True,
        (stored (Json (JObj [(''custom_repositories'', JArr [JStr ''b'', JStr ''a'']),
                             (''settings'', JObj [])])))\<lparr>write_calls := 1\<rparr>)"
proof -
  let ?s = "stored (Json repos_document)"
  let ?xs = "[JStr ''a'', JStr ''b'', JStr ''a'']"
  let ?kvs = "[(''custom_repositories'', JArr ?xs), (''settings'', JObj [])]"
  have h1: "stored_repository_list ?s = Some ?xs"
    by (simp add: stored_repository_list_def stored_def repos_document_def)
  have h2: "config_file ?s \<noteq> None \<longrightarrow> can_read ?s"
    by (simp add: stored_def)
  have ld: "fst (load_config ?s) = Inr (JObj ?kvs)"
    by (simp add: load_config_json stored_def repos_document_def default_items_def)
  have c: "JStr ''c'' \<notin> set ?xs" by simp
  have a: "?xs = [] @ JStr ''a'' # [JStr ''b'', JStr ''a''] \<and> JStr ''a'' \<notin> set []" by simp
  have 1: "remove_custom_repository ''c'' ?s = (Inr False, ?s)"
    using remove_custom_repository_stored_list[OF h1 h2, of "''c''"] c by blast
  from remove_custom_repository_stored_list[OF h1 h2, of "''a''"]
  have 2: "remove_custom_repository ''a'' ?s
      = (Inr True,
        (stored (Json (JObj [(''custom_repositories'', JArr [JStr ''b'', JStr ''a'']),
                             (''settings'', JObj [])])))\<lparr>write_calls := 1\<rparr>)"
  proof (elim exE conjE)
    fix kvs'
    assume l: "fst (load_config ?s) = Inr (JObj kvs')"
      and r: "\<forall>ys zs. ?xs = ys @ JStr ''a'' # zs \<and> JStr ''a'' \<notin> set ys \<longrightarrow>
                remove_custom_repository ''a'' ?s
                  = save_config
                      (JObj (AList.update ''custom_repositories'' (JArr (ys @ zs)) kvs')) ?s"
    from l ld have k: "kvs' = ?kvs" by simp
    from r[rule_format, OF a] have "remove_custom_repository ''a'' ?s
        = save_config (JObj (AList.update ''custom_repositories''
              (JArr ([] @ [JStr ''b'', JStr ''a''])) kvs')) ?s" .
    then show ?thesis
      by (simp add: k save_config_def ensure_config_dir_cases write_json_def stored_def
          int_fits_small)
  qed
  from h1 1 2 show ?thesis by (intro conjI)
qed

theorem remove_custom_repository_unreadable_counterexample:
  "stored_repository_list write_only_with_repo = Some [JStr ''https://example.com/repo'']
   \<and> remove_custom_repository ''https://example.com/repo'' write_only_with_repo
     = (Inr False, write_only_with_repo)"
proof -
  have l: "fst (load_config write_only_with_repo) = Inr (JObj default_items)"
    by (simp add: load_config_unreadable write_only_with_repo_def default_config_def)
  have m: "map_of default_items ''custom_repositories'' = Some (JArr [])"
    by (simp add: default_items_def)
  have "remove_custom_repository ''https://example.com/repo'' write_only_with_repo
      = (Inr False, write_only_with_repo)"
    by (simp add: remove_custom_repository_unfold[OF l m])
  moreover have "stored_repository_list write_only_with_repo
      = Some [JStr ''https://example.com/repo'']"
    by (simp add: stored_repository_list_def write_only_with_repo_def valid_config_def)
  ultimately show ?thesis by simp
qed

text \<open>
  C4, as amended. Let the file, if there is one, be readable, and let \<open>xs\<close> be the
  repository list that it holds. Then \<open>load_config\<close> returns a dictionary with \<open>xs\<close>
  under \<^verbatim>\<open>custom_repositories\<close>. If \<open>url\<close> is in \<open>xs\<close>, \<open>add_custom_repository\<close>
  returns \<^verbatim>\<open>False\<close> and the file system is the one before. Otherwise the outcome is
  that of \<open>save_config\<close> on the loaded dictionary with the list \<open>xs @ [url]\<close>. If
  moreover \<open>url\<close> occurs at most once in \<open>xs\<close>, the file can be read after the first
  call, and the first call, when it saves, returns \<^verbatim>\<open>True\<close>, then the second of two
  calls with \<open>url\<close> returns \<^verbatim>\<open>False\<close> and the list that the file holds afterwards has
  \<open>url\<close> exactly once.
\<close>

theorem add_custom_repository_stored_list:
  assumes "stored_repository_list s = Some xs" and "config_file s \<noteq> None \<longrightarrow> can_read s"
  shows "\<exists>kvs'. fst (load_config s) = Inr (JObj kvs')
           \<and> map_of kvs' ''custom_repositories'' = Some (JArr xs)
           \<and> (JStr url \<in> set xs \<longrightarrow> add_custom_repository url s = (Inr False, s))
           \<and> (JStr url \<notin> set xs \<longrightarrow>
                 add_custom_repository url s
                   = save_config
                       (JObj (AList.update ''custom_repositories''
                                (JArr (xs @ [JStr url])) kvs')) s)
           \<and> (count_list xs (JStr url) \<le> 1 \<and> can_read s
                \<and> (JStr url \<notin> set xs \<longrightarrow> fst (add_custom_repository url s) = Inr True) \<longrightarrow>
                 fst (add_custom_repository url (snd (add_custom_repository url s))) = Inr False
                 \<and> (\<exists>ys. stored_repository_list
                            (snd (add_custom_repository url (snd (add_custom_repository url s))))
                          = Some ys
                        \<and> count_list ys (JStr url) = 1))"
proof -
  from stored_list_loaded[OF assms] obtain kvs' where
    l: "fst (load_config s) = Inr (JObj kvs')" and
    m: "map_of kvs' ''custom_repositories'' = Some (JArr xs)"
    by (elim exE conjE)
  have p1: "JStr url \<in> set xs \<longrightarrow> add_custom_repository url s = (Inr False, s)"
    by (simp add: add_custom_repository_unfold[OF l m])
  have p2: "JStr url \<notin> set xs \<longrightarrow>
      add_custom_repository url s
        = save_config (JObj (AList.update ''custom_repositories'' (JArr (xs @ [JStr url])) kvs')) s"
    by (simp add: add_custom_repository_unfold[OF l m])
  have p3: "count_list xs (JStr url) \<le> 1 \<and> can_read s
        \<and> (JStr url \<notin> set xs \<longrightarrow> fst (add_custom_repository url s) = Inr True) \<longrightarrow>
      fst (add_custom_repository url (snd (add_custom_repository url s))) = Inr False
      \<and> (\<exists>ys. stored_repository_list
                 (snd (add_custom_repository url (snd (add_custom_repository url s))))
               = Some ys
             \<and> count_list ys (JStr url) = 1)"
  proof
    assume h: "count_list xs (JStr url) \<le> 1 \<and> can_read s
      \<and> (JStr url \<notin> set xs \<longrightarrow> fst (add_custom_repository url s) = Inr True)"
    let ?twice = "snd (add_custom_repository url (snd (add_custom_repository url s)))"
    show "fst (add_custom_repository url (snd (add_custom_repository url s))) = Inr False
      \<and> (\<exists>ys. stored_repository_list ?twice = Some ys \<and> count_list ys (JStr url) = 1)"
    proof (cases "JStr url \<in> set xs")
      case True
      then have a: "add_custom_repository url s = (Inr False, s)"
        by (simp add: add_custom_repository_unfold[OF l m])
      have "count_list xs (JStr url) \<noteq> 0" using True by (simp add: count_list_0_iff)
      with h have c: "count_list xs (JStr url) = 1" by simp
      from a c assms(1) show ?thesis by simp
    next
      case False
      let ?kvs'' = "AList.update ''custom_repositories'' (JArr (xs @ [JStr url])) kvs'"
      let ?s1 = "snd (save_config (JObj ?kvs'') s)"
      have a: "add_custom_repository url s = save_config (JObj ?kvs'') s"
        using False by (simp add: add_custom_repository_unfold[OF l m])
      with h False have ok: "fst (save_config (JObj ?kvs'') s) = Inr True" by simp
      have k: "''custom_repositories'' \<in> fst ` set ?kvs''" "''settings'' \<in> fst ` set ?kvs''"
        using load_config_object_keys[OF l] by (simp_all add: dom_update)
      have "load_config ?s1 = (Inr (JObj ?kvs''), ?s1)"
        using k ok h by (intro load_after_save) simp_all
      then have l1: "fst (load_config ?s1) = Inr (JObj ?kvs'')" by simp
      have m1: "map_of ?kvs'' ''custom_repositories'' = Some (JArr (xs @ [JStr url]))"
        by (simp add: update_conv')
      have b: "add_custom_repository url ?s1 = (Inr False, ?s1)"
        by (simp add: add_custom_repository_unfold[OF l1 m1])
      have g: "stored_repository_list ?s1 = Some (xs @ [JStr url])"
        using save_config_True[OF ok] m1 by (rule stored_repository_list_json)
      have c: "count_list (xs @ [JStr url]) (JStr url) = 1"
        using False by simp
      from a b g c show ?thesis by simp
    qed
  qed
  from l m p1 p2 p3 show ?thesis by (intro exI[of _ kvs'] conjI)
qed

theorem add_custom_repository_stored_list_witness:
  "stored_repository_list fresh_home = Some []
   \<and> add_custom_repository ''https://example.com/repo'' fresh_home
     = (Inr True,
        (stored (Json (JObj [(''custom_repositories'', JArr [JStr ''https://example.com/repo'']),
                             (''settings'', JObj [(''cache_expiry'', JInt 300),
                                                  (''max_cache_size'', JInt 50)])])))
          \<lparr>write_calls := 2\<rparr>)
   \<and> fst (add_custom_repository ''https://example.com/repo''
            (snd (add_custom_repository ''https://example.com/repo'' fresh_home))) = Inr False
   \<and> (\<exists>ys. stored_repository_list
                (snd (add_custom_repository ''https://example.com/repo''
                   (snd (add_custom_repository ''https://example.com/repo'' fresh_home))))
              = Some ys
            \<and> count_list ys (JStr ''https://example.com/repo'') = 1)"
proof -
  let ?u = "''https://example.com/repo''"
  have h1: "stored_repository_list fresh_home = Some []"
    by (simp add: stored_repository_list_def fresh_home_def)
  have h2: "config_file fresh_home \<noteq> None \<longrightarrow> can_read fresh_home"
    by (simp add: fresh_home_def)
  have ld: "fst (load_config fresh_home) = Inr (JObj default_items)"
    by (simp add: load_config_absent fresh_home_def default_config_def)
  have n: "JStr ?u \<notin> set []" by simp
  from add_custom_repository_stored_list[OF h1 h2, of ?u] show ?thesis
  proof (elim exE conjE)
    fix kvs'
    assume l: "fst (load_config fresh_home) = Inr (JObj kvs')"
      and p2: "JStr ?u \<notin> set [] \<longrightarrow>
          add_custom_repository ?u fresh_home
            = save_config (JObj (AList.update ''custom_repositories''
                (JArr ([] @ [JStr ?u])) kvs')) fresh_home"
      and p3: "count_list [] (JStr ?u) \<le> 1 \<and> can_read fresh_home
          \<and> (JStr ?u \<notin> set [] \<longrightarrow> fst (add_custom_repository ?u fresh_home) = Inr True) \<longrightarrow>
          fst (add_custom_repository ?u (snd (add_custom_repository ?u fresh_home))) = Inr False
          \<and> (\<exists>ys. stored_repository_list
                 (snd (add_custom_repository ?u (snd (add_custom_repository ?u fresh_home))))
               = Some ys
             \<and> count_list ys (JStr ?u) = 1)"
    from l ld have k: "kvs' = default_items" by simp
    from p2[rule_format, OF n] have 1: "add_custom_repository ?u fresh_home
       = (Inr True,
          (stored (Json (JObj [(''custom_repositories'', JArr [JStr ?u]),
                               (''settings'', JObj [(''cache_expiry'', JInt 300),
                                                    (''max_cache_size'', JInt 50)])])))
            \<lparr>write_calls := 2\<rparr>)"
      by (simp add: k save_config_def ensure_config_dir_cases write_json_def fresh_home_def
          stored_def default_items_def int_fits_small)
    have c: "count_list [] (JStr ?u) \<le> 1 \<and> can_read fresh_home
        \<and> (JStr ?u \<notin> set [] \<longrightarrow> fst (add_custom_repository ?u fresh_home) = Inr True)"
      using 1 by (simp add: fresh_home_def)
    note 2 = p3[rule_format, OF c]
    from h1 1 2 show ?thesis by (intro conjI) simp_all
  qed
qed

theorem add_custom_repository_counterexample:
  "stored_repository_list write_only_with_repo = Some [JStr ''https://example.com/repo'']
   \<and> add_custom_repository ''https://example.com/repo'' write_only_with_repo
     = (Inr True,
        write_only_with_repo
          \<lparr>config_file :=
             Some (Json (JObj [(''custom_repositories'', JArr [JStr ''https://example.com/repo'']),
                               (''settings'', JObj [(''cache_expiry'', JInt 300),
                                                    (''max_cache_size'', JInt 50)])])),
           write_calls := 1\<rparr>)
   \<and> add_custom_repository ''https://example.com/repo'' read_only_dir
     = (Inr False, read_only_dir\<lparr>write_calls := 1\<rparr>)
   \<and> add_custom_repository ''https://example.com/repo'' (read_only_dir\<lparr>write_calls := 1\<rparr>)
     = (Inr False, read_only_dir\<lparr>write_calls := 2\<rparr>)
   \<and> stored_repository_list (read_only_dir\<lparr>write_calls := 2\<rparr>) = Some []
   \<and> get_custom_repositories (read_only_dir\<lparr>write_calls := 2\<rparr>)
     = (Inr (JArr []), read_only_dir\<lparr>write_calls := 2\<rparr>)"
proof -
  have 1: "stored_repository_list write_only_with_repo = Some [JStr ''https://example.com/repo'']"
    by (simp add: stored_repository_list_def write_only_with_repo_def valid_config_def)
  have 2: "add_custom_repository ''https://example.com/repo'' write_only_with_repo
     = (Inr True,
        write_only_with_repo
          \<lparr>config_file :=
             Some (Json (JObj [(''custom_repositories'', JArr [JStr ''https://example.com/repo'']),
                               (''settings'', JObj [(''cache_expiry'', JInt 300),
                                                    (''max_cache_size'', JInt 50)])])),
           write_calls := 1\<rparr>)"
    by (simp add: add_custom_repository_def load_config_unreadable write_only_with_repo_def
        default_config_def default_items_def save_config_def ensure_config_dir_cases
        write_json_def int_fits_small)
  have 3: "add_custom_repository ''https://example.com/repo'' read_only_dir
       = (Inr False, read_only_dir\<lparr>write_calls := 1\<rparr>)
     \<and> add_custom_repository ''https://example.com/repo'' (read_only_dir\<lparr>write_calls := 1\<rparr>)
       = (Inr False, read_only_dir\<lparr>write_calls := 2\<rparr>)
     \<and> stored_repository_list (read_only_dir\<lparr>write_calls := 2\<rparr>) = Some []
     \<and> get_custom_repositories (read_only_dir\<lparr>write_calls := 2\<rparr>)
       = (Inr (JArr []), read_only_dir\<lparr>write_calls := 2\<rparr>)"
    by (simp add: add_custom_repository_def get_custom_repositories_def load_config_absent
        read_only_dir_def default_config_def default_items_def save_config_def
        ensure_config_dir_cases write_json_def stored_repository_list_def)
  from 1 2 3 show ?thesis by (intro conjI) simp_all
qed

text \<open>
  C7, as amended. If \<open>set_setting key v\<close> returns \<^verbatim>\<open>True\<close> and the file can then be
  read, the \<open>get_setting key\<close> that follows returns \<open>v\<close>, whatever its default. If the
  settings that \<open>load_config\<close> returns are a dictionary without the key \<open>key'\<close>,
  \<open>get_setting key'\<close> returns its default, \<^verbatim>\<open>None\<close> when none is given. These settings
  are the stored ones when the file is read and its dictionary has a \<^verbatim>\<open>settings\<close>
  entry; they are \<open>cache_expiry = 300\<close>, \<open>max_cache_size = 50\<close> when there is no file,
  when it cannot be read, when its text is malformed, and when its dictionary has no
  \<^verbatim>\<open>settings\<close> entry.
\<close>

theorem set_setting_get_setting_loaded:
  "(fst (set_setting key v s) = Inr True \<and> can_read (snd (set_setting key v s)) \<longrightarrow>
      fst (get_setting key dflt (snd (set_setting key v s))) = Inr (JInt v))
   \<and> (\<forall>kvs skvs. fst (load_config s) = Inr (JObj kvs)
         \<and> map_of kvs ''settings'' = Some (JObj skvs)
         \<and> key' \<notin> fst ` set skvs \<longrightarrow>
       get_setting key' dflt s = (Inr (of_default dflt), s))
   \<and> (\<forall>kvs skvs. config_file s = Some (Json (JObj kvs)) \<and> can_read s
         \<and> map_of kvs ''settings'' = Some (JObj skvs) \<longrightarrow>
       (\<exists>kvs'. fst (load_config s) = Inr (JObj kvs')
          \<and> map_of kvs' ''settings'' = Some (JObj skvs)))
   \<and> (config_file s = None \<or> \<not> can_read s \<or> config_file s = Some Malformed
         \<or> (\<exists>kvs. config_file s = Some (Json (JObj kvs)) \<and> ''settings'' \<notin> fst ` set kvs) \<longrightarrow>
       (\<exists>kvs'. fst (load_config s) = Inr (JObj kvs')
          \<and> map_of kvs' ''settings''
              = Some (JObj [(''cache_expiry'', JInt 300), (''max_cache_size'', JInt 50)])))"
proof -
  have p1: "fst (set_setting key v s) = Inr True \<and> can_read (snd (set_setting key v s)) \<longrightarrow>
      fst (get_setting key dflt (snd (set_setting key v s))) = Inr (JInt v)"
  proof
    assume a: "fst (set_setting key v s) = Inr True \<and> can_read (snd (set_setting key v s))"
    then have ok: "fst (set_setting key v s) = Inr True"
      and r: "can_read (snd (set_setting key v s))" by simp_all
    from set_setting_returns[OF ok] obtain kvs skvs where
      l: "fst (load_config s) = Inr (JObj kvs)" and
      e: "set_setting key v s
           = save_config (JObj (AList.update ''settings''
                 (JObj (AList.update key (JInt v) skvs)) kvs)) s"
      by (elim exE conjE)
    let ?kvs' = "AList.update ''settings'' (JObj (AList.update key (JInt v) skvs)) kvs"
    let ?s1 = "snd (save_config (JObj ?kvs') s)"
    have k: "''custom_repositories'' \<in> fst ` set ?kvs'" "''settings'' \<in> fst ` set ?kvs'"
      using load_config_object_keys[OF l] by (simp_all add: dom_update)
    have ok': "fst (save_config (JObj ?kvs') s) = Inr True" using ok e by simp
    have r': "can_read s" using r e by (simp add: save_config_can_read)
    have "load_config ?s1 = (Inr (JObj ?kvs'), ?s1)"
      using k ok' r' by (rule load_after_save)
    then have l1: "fst (load_config ?s1) = Inr (JObj ?kvs')" by simp
    have m1: "map_of ?kvs' ''settings'' = Some (JObj (AList.update key (JInt v) skvs))"
      by (simp add: update_conv')
    have "get_setting key dflt ?s1 = (Inr (JInt v), ?s1)"
      by (simp add: get_setting_unfold[OF l1 m1] update_conv')
    then show "fst (get_setting key dflt (snd (set_setting key v s))) = Inr (JInt v)"
      by (simp add: e)
  qed
  have p2: "\<forall>kvs skvs. fst (load_config s) = Inr (JObj kvs)
         \<and> map_of kvs ''settings'' = Some (JObj skvs)
         \<and> key' \<notin> fst ` set skvs \<longrightarrow>
       get_setting key' dflt s = (Inr (of_default dflt), s)"
  proof (intro allI impI, elim conjE)
    fix kvs skvs
    assume l: "fst (load_config s) = Inr (JObj kvs)"
      and m: "map_of kvs ''settings'' = Some (JObj skvs)"
      and n: "key' \<notin> fst ` set skvs"
    from n have "map_of skvs key' = None" by (simp add: map_of_eq_None_iff)
    then show "get_setting key' dflt s = (Inr (of_default dflt), s)"
      by (simp add: get_setting_unfold[OF l m])
  qed
  have p3: "\<forall>kvs skvs. config_file s = Some (Json (JObj kvs)) \<and> can_read s
         \<and> map_of kvs ''settings'' = Some (JObj skvs) \<longrightarrow>
       (\<exists>kvs'. fst (load_config s) = Inr (JObj kvs')
          \<and> map_of kvs' ''settings'' = Some (JObj skvs))"
  proof (intro allI impI, elim conjE)
    fix kvs skvs
    assume "config_file s = Some (Json (JObj kvs))" and "can_read s"
      and "map_of kvs ''settings'' = Some (JObj skvs)"
    then show "\<exists>kvs'. fst (load_config s) = Inr (JObj kvs')
        \<and> map_of kvs' ''settings'' = Some (JObj skvs)"
      by (rule loaded_settings_stored)
  qed
  have p4: "config_file s = None \<or> \<not> can_read s \<or> config_file s = Some Malformed
         \<or> (\<exists>kvs. config_file s = Some (Json (JObj kvs)) \<and> ''settings'' \<notin> fst ` set kvs) \<longrightarrow>
       (\<exists>kvs'. fst (load_config s) = Inr (JObj kvs')
          \<and> map_of kvs' ''settings''
              = Some (JObj [(''cache_expiry'', JInt 300), (''max_cache_size'', JInt 50)]))"
    by (rule impI) (rule loaded_settings_default)
  from p1 p2 p3 p4 show ?thesis by (intro conjI)
qed

theorem set_setting_get_setting_loaded_witness:
  "set_setting ''x'' 1 fresh_home = (Inr True, after_set_x)
   \<and> fst (get_setting ''x'' None (snd (set_setting ''x'' 1 fresh_home))) = Inr (JInt 1)
   \<and> get_setting ''y'' (Some 99) after_set_x = (Inr (JInt 99), after_set_x)"
proof -
  let ?skvs = "[(''cache_expiry'', JInt 300), (''max_cache_size'', JInt 50), (''x'', JInt 1)]"
  let ?kvs = "[(''custom_repositories'', JArr []), (''settings'', JObj ?skvs)]"
  have e: "set_setting ''x'' 1 fresh_home = (Inr True, after_set_x)"
    by (simp add: set_setting_def load_config_absent fresh_home_def default_config_def
        default_items_def save_config_def ensure_config_dir_cases write_json_def
        after_set_x_def stored_def int_fits_small)
  have c: "fst (set_setting ''x'' 1 fresh_home) = Inr True
      \<and> can_read (snd (set_setting ''x'' 1 fresh_home))"
    by (simp add: e) (simp add: after_set_x_def stored_def)
  have d: "fst (load_config after_set_x) = Inr (JObj ?kvs)
      \<and> map_of ?kvs ''settings'' = Some (JObj ?skvs)
      \<and> ''y'' \<notin> fst ` set ?skvs"
    by (simp add: load_config_json after_set_x_def stored_def default_items_def)
  have 1: "fst (get_setting ''x'' None (snd (set_setting ''x'' 1 fresh_home))) = Inr (JInt 1)"
    using set_setting_get_setting_loaded[of "''x''" 1 fresh_home None,
        THEN conjunct1, rule_format, OF c] .
  have "get_setting ''y'' (Some 99) after_set_x = (Inr (of_default (Some 99)), after_set_x)"
    using set_setting_get_setting_loaded[of _ _ after_set_x "Some 99" "''y''",
        THEN conjunct2, THEN conjunct1, rule_format, OF d] .
  then have 2: "get_setting ''y'' (Some 99) after_set_x = (Inr (JInt 99), after_set_x)"
    by simp
  from e 1 2 show ?thesis by (intro conjI)
qed

theorem set_setting_get_setting_counterexample:
  "fst (set_setting ''x'' 1 write_only_file) = Inr True
   \<and> fst (get_setting ''x'' None (snd (set_setting ''x'' 1 write_only_file))) = Inr JNull
   \<and> JNull \<noteq> JInt 1
   \<and> config_file fresh_home = None
   \<and> get_setting ''cache_expiry'' (Some 7) fresh_home = (Inr (JInt 300), fresh_home)
   \<and> JInt 300 \<noteq> JInt 7"
proof -
  have e: "set_setting ''x'' 1 write_only_file
      = (Inr True,
         write_only_file
           \<lparr>config_file :=
              Some (Json (JObj [(''custom_repositories'', JArr []),
                                (''settings'', JObj [(''cache_expiry'', JInt 300),
                                                     (''max_cache_size'', JInt 50),
                                                     (''x'', JInt 1)])])),
            write_calls := 1\<rparr>)"
    by (simp add: set_setting_def load_config_unreadable write_only_file_def default_config_def
        default_items_def save_config_def ensure_config_dir_cases write_json_def
        int_fits_small)
  have g: "fst (get_setting ''x'' None (snd (set_setting ''x'' 1 write_only_file))) = Inr JNull"
    by (simp add: e)
      (simp add: get_setting_def load_config_unreadable write_only_file_def default_config_def
        default_items_def)
  have f: "get_setting ''cache_expiry'' (Some 7) fresh_home = (Inr (JInt 300), fresh_home)"
    by (simp add: get_setting_def load_config_absent fresh_home_def default_config_def
        default_items_def)
  from e g f show ?thesis by (simp add: fresh_home_def)
qed

end
